theory Spec2Isabelle
  imports Main "HOL-Library.Sublist"
begin

section \<open>Python values\<close>

text \<open>
  The actions of \<^verbatim>\<open>backend/actions/actions.py\<close> handle values whose Python
  type is \<^verbatim>\<open>Any\<close>: the entries of \<^verbatim>\<open>tracker.latest_message\<close> and
  whatever \<^verbatim>\<open>response.json()\<close> returns. A Python \<^verbatim>\<open>str\<close> is a sequence of
  Unicode code points, so it is a list of naturals here; \<open>lit\<close> turns an ASCII literal
  into such a list.
\<close>

type_synonym pystr = "nat list"

definition lit :: "string \<Rightarrow> pystr" where
  "lit s = map of_char s"

datatype pyval =
    PyNone
  | PyBool bool
  | PyInt int
  | PyFloat pystr
  | PyStr pystr
  | PyList "pyval list"
  | PyDict "(pystr \<times> pyval) list"

text \<open>
  \<open>PyFloat\<close> keeps a number that is not an integer by its literal: no action computes
  with it. \<open>PyDict\<close> lists the items of a dictionary; a key is looked up with
  \<open>map_of\<close>.

  The exceptions below are all subclasses of \<^verbatim>\<open>Exception\<close>, which is what the
  handlers of the actions catch. \<open>HTTPError\<close> carries the reason phrase of the response:
  \<^verbatim>\<open>raise_for_status\<close> puts it into the text of the exception.
\<close>

datatype py_exn =
    KeyError
  | IndexError
  | TypeError
  | AttributeError
  | ValueError
  | HTTPError pystr
  | JSONDecodeError
  | ConnectionError
  | Timeout
  | SMTPException
  | UnicodeEncodeError
  | OtherException

definition dict_get :: "(pystr \<times> pyval) list \<Rightarrow> pystr \<Rightarrow> pyval \<Rightarrow> pyval" where
  "dict_get d k dflt = (case map_of d k of None \<Rightarrow> dflt | Some v \<Rightarrow> v)"

text \<open>\<^verbatim>\<open>v[k]\<close> for a string key: only a dictionary accepts one.\<close>

fun getitem_key :: "pyval \<Rightarrow> pystr \<Rightarrow> py_exn + pyval" where
  "getitem_key (PyDict d) k = (case map_of d k of None \<Rightarrow> Inl KeyError | Some v \<Rightarrow> Inr v)"
| "getitem_key v k = Inl TypeError"

text \<open>
  \<^verbatim>\<open>v[0]\<close>: the first element of a list, the first character of a string (as a
  string of length one), a missing key of a dictionary whose keys are strings, and a
  type error on everything else.
\<close>

fun getitem_0 :: "pyval \<Rightarrow> py_exn + pyval" where
  "getitem_0 (PyList []) = Inl IndexError"
| "getitem_0 (PyList (x # xs)) = Inr x"
| "getitem_0 (PyStr []) = Inl IndexError"
| "getitem_0 (PyStr (c # cs)) = Inr (PyStr [c])"
| "getitem_0 (PyDict d) = Inl KeyError"
| "getitem_0 v = Inl TypeError"

definition bind_exn :: "py_exn + 'a \<Rightarrow> ('a \<Rightarrow> py_exn + 'b) \<Rightarrow> py_exn + 'b" where
  "bind_exn m f = (case m of Inl e \<Rightarrow> Inl e | Inr x \<Rightarrow> f x)"

text \<open>
  A replacement field \<^verbatim>\<open>{v}\<close> of an f-string is \<^verbatim>\<open>str(v)\<close>. On a string it is
  the string itself, on \<^verbatim>\<open>None\<close> and the booleans it is their name; on the other
  values it is what Python's \<^verbatim>\<open>repr\<close> prints, taken as the parameter \<open>py_repr\<close>.
\<close>

fun format_value :: "(pyval \<Rightarrow> pystr) \<Rightarrow> pyval \<Rightarrow> pystr" where
  "format_value py_repr (PyStr s) = s"
| "format_value py_repr PyNone = lit ''None''"
| "format_value py_repr (PyBool True) = lit ''True''"
| "format_value py_repr (PyBool False) = lit ''False''"
| "format_value py_repr v = py_repr v"

text \<open>
  \<^verbatim>\<open>s.replace(old, new)\<close>: the occurrences of \<open>old\<close> are found from left to right
  and do not overlap; the text after a replaced occurrence is scanned, the replacement
  is not. With an empty \<open>old\<close>, \<open>new\<close> goes before every character and at the end.
\<close>

function str_replace :: "pystr \<Rightarrow> pystr \<Rightarrow> pystr \<Rightarrow> pystr" where
  "str_replace old new [] = (if old = [] then new else [])"
| "str_replace old new (c # cs) =
     (if old = [] then new @ c # str_replace old new cs
      else if prefix old (c # cs) then new @ str_replace old new (drop (length old) (c # cs))
      else c # str_replace old new cs)"
  by pat_completeness auto
termination
  by (relation "measure (\<lambda>(old, new, s). length s)") auto

text \<open>
  \<^verbatim>\<open>str.isspace\<close> on one code point: the characters of bidirectional type WS, B or
  S and of category Zs.
\<close>

definition py_isspace :: "nat \<Rightarrow> bool" where
  "py_isspace c =
     ((9 \<le> c \<and> c \<le> 13) \<or> (28 \<le> c \<and> c \<le> 32) \<or> c = 133 \<or> c = 160 \<or> c = 5760 \<or>
      (8192 \<le> c \<and> c \<le> 8202) \<or> c = 8232 \<or> c = 8233 \<or> c = 8239 \<or> c = 8287 \<or>
      c = 12288)"

definition str_strip :: "pystr \<Rightarrow> pystr" where
  "str_strip s = rev (dropWhile py_isspace (rev (dropWhile py_isspace s)))"

section \<open>The dialogue engine's side\<close>

record tracker =
  latest_message :: "(pystr \<times> pyval) list"

text \<open>
  \<^verbatim>\<open>dispatcher.utter_message(text=..., image=...)\<close> appends one message to the
  dispatcher, whatever the arguments are. \<^verbatim>\<open>SlotSet\<close> is the one event the module
  imports.
\<close>

record message =
  msg_text :: pyval
  image :: "pystr option"

datatype event = SlotSet pystr pyval

section \<open>The outside world\<close>

text \<open>
  The keyword arguments of \<^verbatim>\<open>requests.post\<close> that matter: the address, the
  headers, the JSON body and the timeout (\<open>None\<close> when the call passes none, which
  is the library's default: no time limit).
\<close>

record http_request =
  url :: pystr
  headers :: "(pystr \<times> pystr) list"
  json_body :: pyval
  timeout :: "nat option"

text \<open>
  What a call of \<^verbatim>\<open>requests.post\<close> that has come back gave the caller: an
  exception, or a response with its status code, the reason phrase of its status line
  and the value \<^verbatim>\<open>response.json()\<close> returns (\<open>None\<close> when the body is not JSON
  and \<^verbatim>\<open>json()\<close> raises).
\<close>

datatype http_result =
    PostRaised py_exn
  | Response nat pystr "pyval option"

text \<open>\<^verbatim>\<open>response.raise_for_status()\<close> raises on the 4xx and 5xx codes only.\<close>

definition raise_for_status :: "nat \<Rightarrow> bool" where
  "raise_for_status status = (400 \<le> status \<and> status < 600)"

text \<open>
  The statements of the suggestion action's \<^verbatim>\<open>try\<close> block, in the order of the
  source: building the MIME message, \<^verbatim>\<open>smtplib.SMTP(...)\<close>, \<^verbatim>\<open>starttls\<close>,
  \<^verbatim>\<open>login\<close>, \<^verbatim>\<open>msg.as_string()\<close>, \<^verbatim>\<open>sendmail\<close> and \<^verbatim>\<open>quit\<close>. The world
  says which of them, if any, is the first to raise, and which characters beyond ASCII
  the encoding of \<^verbatim>\<open>sys.stdout\<close> can encode.
\<close>

datatype smtp_step = BuildMessage | Connect | Starttls | Login | AsString | Sendmail | Quit

record world =
  http :: http_result
  smtp_raises :: "smtp_step option"
  stdout_encodes :: "nat \<Rightarrow> bool"

text \<open>
  Each handler runs \<^verbatim>\<open>print(f"Error ...: {e}")\<close> before it utters its fallback.
  \<^verbatim>\<open>print\<close> raises \<^verbatim>\<open>UnicodeEncodeError\<close> when stdout cannot encode a
  character of the text. The prefix is ASCII, and so is what the libraries themselves
  write into the text of an exception (\<^verbatim>\<open>requests\<close> percent-encodes the address,
  \<^verbatim>\<open>smtplib\<close> shows the replies of the server as bytes literals, a failed subscript
  names the key or the type). The part that comes from outside as text is the reason
  phrase in an \<^verbatim>\<open>HTTPError\<close>. Every encoding of stdout covers ASCII.
\<close>

fun exn_remote_text :: "py_exn \<Rightarrow> pystr" where
  "exn_remote_text (HTTPError reason) = reason"
| "exn_remote_text e = []"

definition print_ok :: "(nat \<Rightarrow> bool) \<Rightarrow> pystr \<Rightarrow> bool" where
  "print_ok enc s = list_all (\<lambda>c. c < 128 \<or> enc c) s"

record envelope =
  From :: "pystr option"
  To :: pystr
  Subject :: pystr
  html_body :: pystr

datatype ext_call =
    HttpPost http_request
  | SmtpOpen pystr nat "nat option"
  | SmtpStarttls
  | SmtpLogin "pystr option" "pystr option"
  | SmtpSendmail "pystr option" pystr envelope
  | SmtpQuit

text \<open>
  What one invocation of \<^verbatim>\<open>run\<close> did: the messages it uttered, the list of events
  it returned and the calls it made to the outside, in order. A call that raises is in
  the list: it was made.
\<close>

record run_result =
  messages :: "message list"
  events :: "event list"
  calls :: "ext_call list"

text \<open>
  An invocation returns, or an exception leaves \<^verbatim>\<open>run\<close>; then nothing was uttered,
  and the calls made until then are kept with the exception.
\<close>

type_synonym run_outcome = "(py_exn \<times> ext_call list) + run_result"

section \<open>Configuration\<close>

text \<open>The values read with \<^verbatim>\<open>os.getenv\<close> at import time: a string or \<^verbatim>\<open>None\<close>.\<close>

record config =
  GEMINI_API_KEY :: "pystr option"
  IMAGE_API_KEY :: "pystr option"
  EMAIL_ADDRESS :: "pystr option"
  EMAIL_PASSWORD :: "pystr option"

definition getenv_value :: "pystr option \<Rightarrow> pyval" where
  "getenv_value k = (case k of None \<Rightarrow> PyNone | Some s \<Rightarrow> PyStr s)"

definition GEMINI_API_URL :: pystr where
  "GEMINI_API_URL =
     lit ''https://generativelanguage.googleapis.com/v1beta/models/'' @
     lit ''gemini-1.5-pro-latest:generateContent''"

definition TO_EMAIL :: pystr where
  "TO_EMAIL = lit ''professionalbusinessadvisory@gmail.com''"

section \<open>ActionFinancialAdvice\<close>

definition ActionFinancialAdvice_name :: pystr where
  "ActionFinancialAdvice_name = lit ''action_financial_advice''"

definition advice_fallback :: pystr where
  "advice_fallback =
     lit ''I apologize, but I'' @ [39] @
     lit ''m having trouble accessing my financial knowledge right now. '' @
     lit ''Please try again in a moment.''"

definition advice_request :: "(pyval \<Rightarrow> pystr) \<Rightarrow> config \<Rightarrow> pyval \<Rightarrow> http_request" where
  "advice_request py_repr cfg user_message =
     (let payload =
            PyDict [(lit ''contents'',
              PyList [PyDict [
                (lit ''role'', PyStr (lit ''user'')),
                (lit ''parts'', PyList [PyDict [(lit ''text'',
                   PyStr (lit ''As a financial advisor, please provide helpful advice for: '' @
                          format_value py_repr user_message))]])]])];
          hdrs = [(lit ''Content-Type'', lit ''application/json'')];
          api_url_with_key =
            GEMINI_API_URL @ lit ''?key='' @
            format_value py_repr (getenv_value (GEMINI_API_KEY cfg))
      in \<lparr>url = api_url_with_key, headers = hdrs, json_body = payload, timeout = None\<rparr>)"

text \<open>
  \<^verbatim>\<open>gemini_response['candidates'][0]['content']['parts'][0]['text']\<close>, each
  subscript raising as Python does.
\<close>

definition candidate_text :: "pyval \<Rightarrow> py_exn + pyval" where
  "candidate_text gemini_response =
     bind_exn (getitem_key gemini_response (lit ''candidates'')) (\<lambda>a.
     bind_exn (getitem_0 a) (\<lambda>b.
     bind_exn (getitem_key b (lit ''content'')) (\<lambda>c.
     bind_exn (getitem_key c (lit ''parts'')) (\<lambda>d.
     bind_exn (getitem_0 d) (\<lambda>e.
     getitem_key e (lit ''text''))))))"

text \<open>
  The body of the \<^verbatim>\<open>try\<close> after \<^verbatim>\<open>requests.post\<close> has come back: the
  text to utter, or the exception that leaves the block.
\<close>

definition advice_try :: "http_result \<Rightarrow> py_exn + pyval" where
  "advice_try r =
     (case r of
        PostRaised e \<Rightarrow> Inl e
      | Response status reason body \<Rightarrow>
          if raise_for_status status then Inl (HTTPError reason)
          else (case body of
                  None \<Rightarrow> Inl JSONDecodeError
                | Some gemini_response \<Rightarrow> candidate_text gemini_response))"

text \<open>
  The handler prints the exception and then utters the fallback; when the
  \<^verbatim>\<open>print\<close> raises, that exception leaves \<^verbatim>\<open>run\<close> and nothing is uttered.
\<close>

definition ActionFinancialAdvice_run ::
  "(pyval \<Rightarrow> pystr) \<Rightarrow> config \<Rightarrow> world \<Rightarrow> tracker \<Rightarrow> run_outcome" where
  "ActionFinancialAdvice_run py_repr cfg w tr =
     (let user_message = dict_get (latest_message tr) (lit ''text'') (PyStr []);
          req = advice_request py_repr cfg user_message
      in case advice_try (http w) of
           Inr text_response \<Rightarrow>
             Inr \<lparr>messages = [\<lparr>msg_text = text_response, image = None\<rparr>], events = [],
                  calls = [HttpPost req]\<rparr>
         | Inl e \<Rightarrow>
             if print_ok (stdout_encodes w) (exn_remote_text e) then
               Inr \<lparr>messages = [\<lparr>msg_text = PyStr advice_fallback, image = None\<rparr>],
                    events = [], calls = [HttpPost req]\<rparr>
             else Inl (UnicodeEncodeError, [HttpPost req]))"

section \<open>ActionGenerateImage\<close>

definition ActionGenerateImage_name :: pystr where
  "ActionGenerateImage_name = lit ''action_generate_image''"

definition image_usage :: pystr where
  "image_usage =
     lit ''Please provide a prompt for image generation. Use '' @ [39] @
     lit ''/imagine [your prompt]'' @ [39]"

definition image_caption :: pystr where
  "image_caption = lit ''Here'' @ [39] @ lit ''s your generated image:''"

definition image_fallback :: pystr where
  "image_fallback =
     lit ''I apologize, but I'' @ [39] @
     lit ''m having trouble generating images right now. '' @
     lit ''Please try again in a moment.''"

text \<open>Line 61: \<^verbatim>\<open>prompt = user_message.replace('/imagine', '').strip()\<close>.\<close>

definition image_prompt :: "pystr \<Rightarrow> pystr" where
  "image_prompt user_message = str_strip (str_replace (lit ''/imagine'') [] user_message)"

definition image_request :: "pystr \<Rightarrow> pystr \<Rightarrow> http_request" where
  "image_request api_key prompt =
     \<lparr>url = lit ''https://api.stability.ai/v1/generation/stable-diffusion-v1-6/text-to-image'',
      headers = [(lit ''Content-Type'', lit ''application/json''),
                 (lit ''Accept'', lit ''application/json''),
                 (lit ''Authorization'', lit ''Bearer '' @ api_key)],
      json_body = PyDict [
        (lit ''text_prompts'', PyList [PyDict [(lit ''text'', PyStr prompt)]]),
        (lit ''cfg_scale'', PyInt 7),
        (lit ''height'', PyInt 512),
        (lit ''width'', PyInt 512),
        (lit ''samples'', PyInt 1),
        (lit ''steps'', PyInt 30)],
      timeout = None\<rparr>"

text \<open>\<^verbatim>\<open>data["artifacts"][0]["base64"]\<close>.\<close>

definition artifact_base64 :: "pyval \<Rightarrow> py_exn + pyval" where
  "artifact_base64 data =
     bind_exn (getitem_key data (lit ''artifacts'')) (\<lambda>a.
     bind_exn (getitem_0 a) (\<lambda>b.
     getitem_key b (lit ''base64'')))"

text \<open>
  The \<^verbatim>\<open>try\<close> block: the message to utter or the exception that leaves the block,
  and the calls made. \<^verbatim>\<open>not api_key\<close> holds of \<^verbatim>\<open>None\<close> and of the empty
  string.
\<close>

definition image_try ::
  "(pyval \<Rightarrow> pystr) \<Rightarrow> config \<Rightarrow> world \<Rightarrow> pystr \<Rightarrow> (py_exn + message) \<times> ext_call list" where
  "image_try py_repr cfg w prompt =
     (case IMAGE_API_KEY cfg of
        None \<Rightarrow> (Inl ValueError, [])
      | Some api_key \<Rightarrow>
          if api_key = [] then (Inl ValueError, [])
          else
            (case http w of
               PostRaised e \<Rightarrow> Inl e
             | Response status reason body \<Rightarrow>
                 if raise_for_status status then Inl (HTTPError reason)
                 else (case body of
                         None \<Rightarrow> Inl JSONDecodeError
                       | Some data \<Rightarrow>
                           bind_exn (artifact_base64 data) (\<lambda>image_b64.
                             Inr \<lparr>msg_text = PyStr image_caption,
                                  image = Some (lit ''data:image/png;base64,'' @
                                                format_value py_repr image_b64)\<rparr>)),
             [HttpPost (image_request api_key prompt)]))"

text \<open>
  \<^verbatim>\<open>user_message.replace\<close> stands before the \<^verbatim>\<open>try\<close>: on a value that is not a
  string the attribute lookup raises and the exception leaves \<^verbatim>\<open>run\<close>. The
  handler prints the exception before it utters the fallback, as the handler of the
  financial-advice action does.
\<close>

definition ActionGenerateImage_run ::
  "(pyval \<Rightarrow> pystr) \<Rightarrow> config \<Rightarrow> world \<Rightarrow> tracker \<Rightarrow> run_outcome" where
  "ActionGenerateImage_run py_repr cfg w tr =
     (case dict_get (latest_message tr) (lit ''text'') (PyStr []) of
        PyStr user_message \<Rightarrow>
          (let prompt = image_prompt user_message
           in if prompt = [] then
                Inr \<lparr>messages = [\<lparr>msg_text = PyStr image_usage, image = None\<rparr>], events = [],
                     calls = []\<rparr>
              else
                (case image_try py_repr cfg w prompt of
                   (Inr m, cs) \<Rightarrow> Inr \<lparr>messages = [m], events = [], calls = cs\<rparr>
                 | (Inl e, cs) \<Rightarrow>
                     if print_ok (stdout_encodes w) (exn_remote_text e) then
                       Inr \<lparr>messages = [\<lparr>msg_text = PyStr image_fallback, image = None\<rparr>],
                            events = [], calls = cs\<rparr>
                     else Inl (UnicodeEncodeError, cs)))
      | _ \<Rightarrow> Inl (AttributeError, []))"

section \<open>ActionGetFAQ\<close>

definition ActionGetFAQ_name :: pystr where
  "ActionGetFAQ_name = lit ''action_get_faq''"

definition faq_message :: pystr where
  "faq_message =
     lit ''Here are some frequently asked questions:'' @
     [10, 10] @
     lit ''**Brand**'' @
     [10, 8226] @
     lit '' What is Impact Ventures? - Impact Ventures is a brand that curates pr'' @
     lit ''emium colognes and AI models, blending craftsmanship with cutting-edge'' @
     lit '' innovation.'' @
     [10, 8226] @
     lit '' Where are you based? - We operate online, serving customers worldwide'' @
     lit '' with exclusive fragrances and AI-powered product recommendations.'' @
     [10, 10] @
     lit ''**Ordering & Shipping**'' @
     [10, 8226] @
     lit '' How can I place an order? - Simply browse our collection, select your'' @
     lit '' favorite cologne, and proceed to checkout.'' @
     [10, 8226] @
     lit '' Do you offer international shipping? - Yes! We ship globally. Shippin'' @
     lit ''g rates and delivery times vary based on location.'' @
     [10, 10] @
     lit ''**Product**'' @
     [10, 8226] @
     lit '' Are your colognes made with natural ingredients? - We prioritize high'' @
     lit ''-quality, ethically sourced ingredients.'' @
     [10, 8226] @
     lit '' How should I apply cologne for best results? - Apply to pulse points'' @
     [8212] @
     lit ''wrists, neck, and behind the ears.'' @
     [10, 10] @
     lit ''For more detailed FAQ information, please visit our FAQ page on the we'' @
     lit ''bsite.''"

definition ActionGetFAQ_run ::
  "(pyval \<Rightarrow> pystr) \<Rightarrow> config \<Rightarrow> world \<Rightarrow> tracker \<Rightarrow> run_outcome" where
  "ActionGetFAQ_run py_repr cfg w tr =
     Inr \<lparr>messages = [\<lparr>msg_text = PyStr faq_message, image = None\<rparr>], events = [],
          calls = []\<rparr>"

section \<open>ActionSubmitSuggestion\<close>

definition ActionSubmitSuggestion_name :: pystr where
  "ActionSubmitSuggestion_name = lit ''action_submit_suggestion''"

definition suggestion_sent :: pystr where
  "suggestion_sent =
     lit ''Thank you for your suggestion! It has been sent to our team for review.''"

definition suggestion_noted :: pystr where
  "suggestion_noted =
     lit ''Thank you for your suggestion! I'' @ [39] @ lit ''ve noted it down for our team.''"

definition suggestion_body :: "(pyval \<Rightarrow> pystr) \<Rightarrow> pyval \<Rightarrow> pystr" where
  "suggestion_body py_repr user_message =
     [10] @
     lit ''            <html><body>'' @
     [10] @
     lit ''            <h2 style='' @ [34] @ lit ''color: #014B7B;'' @ [34] @
     lit ''>New Service Suggestion</h2>'' @
     [10] @
     lit ''            <p style='' @ [34] @ lit ''font-size: 16px;'' @ [34] @
     lit ''>A new suggestion has been submitted via the PBASC chatbot:</p>'' @
     [10] @
     lit ''            <p style='' @ [34] @ lit ''font-size: 16px; color: #4CAF50;'' @ [34] @
     lit ''>'' @ [34] @
     format_value py_repr user_message @
     [34] @ lit ''</p>'' @
     [10] @
     lit ''            </body></html>'' @
     [10] @
     lit ''            ''"

definition suggestion_envelope :: "(pyval \<Rightarrow> pystr) \<Rightarrow> config \<Rightarrow> pyval \<Rightarrow> envelope" where
  "suggestion_envelope py_repr cfg user_message =
     \<lparr>From = EMAIL_ADDRESS cfg, To = TO_EMAIL,
      Subject = lit ''New Service Suggestion for PBASC'',
      html_body = suggestion_body py_repr user_message\<rparr>"

text \<open>
  The \<^verbatim>\<open>try\<close> block, statement by statement: \<open>True\<close> when the block reached its
  end, and the calls made to the mail transport. The block holds no
  \<^verbatim>\<open>finally\<close> and no \<^verbatim>\<open>with\<close>: \<^verbatim>\<open>server.quit()\<close> is its sixth statement and
  runs only when the five before it have not raised.
\<close>

definition suggestion_try :: "config \<Rightarrow> smtp_step option \<Rightarrow> envelope \<Rightarrow> bool \<times> ext_call list" where
  "suggestion_try cfg raises msg =
     (if raises = Some BuildMessage then (False, [])
      else let c1 = [SmtpOpen (lit ''smtp.gmail.com'') 587 None] in
      if raises = Some Connect then (False, c1)
      else let c2 = c1 @ [SmtpStarttls] in
      if raises = Some Starttls then (False, c2)
      else let c3 = c2 @ [SmtpLogin (EMAIL_ADDRESS cfg) (EMAIL_PASSWORD cfg)] in
      if raises = Some Login then (False, c3)
      else if raises = Some AsString then (False, c3)
      else let c4 = c3 @ [SmtpSendmail (EMAIL_ADDRESS cfg) TO_EMAIL msg] in
      if raises = Some Sendmail then (False, c4)
      else let c5 = c4 @ [SmtpQuit] in
      if raises = Some Quit then (False, c5)
      else (True, c5))"

text \<open>
  The handler prints the exception of the mail session, whose text holds nothing from
  outside but bytes literals, and utters the softer fallback.
\<close>

definition ActionSubmitSuggestion_run ::
  "(pyval \<Rightarrow> pystr) \<Rightarrow> config \<Rightarrow> world \<Rightarrow> tracker \<Rightarrow> run_outcome" where
  "ActionSubmitSuggestion_run py_repr cfg w tr =
     (let user_message = dict_get (latest_message tr) (lit ''text'') (PyStr []);
          msg = suggestion_envelope py_repr cfg user_message
      in case suggestion_try cfg (smtp_raises w) msg of
           (True, cs) \<Rightarrow>
             Inr \<lparr>messages = [\<lparr>msg_text = PyStr suggestion_sent, image = None\<rparr>], events = [],
                  calls = cs\<rparr>
         | (False, cs) \<Rightarrow>
             if print_ok (stdout_encodes w) [] then
               Inr \<lparr>messages = [\<lparr>msg_text = PyStr suggestion_noted, image = None\<rparr>],
                    events = [], calls = cs\<rparr>
             else Inl (UnicodeEncodeError, cs))"

section \<open>The four actions\<close>

datatype action = FinancialAdvice | GenerateImage | GetFAQ | SubmitSuggestion

fun action_name :: "action \<Rightarrow> pystr" where
  "action_name FinancialAdvice = ActionFinancialAdvice_name"
| "action_name GenerateImage = ActionGenerateImage_name"
| "action_name GetFAQ = ActionGetFAQ_name"
| "action_name SubmitSuggestion = ActionSubmitSuggestion_name"

fun run :: "action \<Rightarrow> (pyval \<Rightarrow> pystr) \<Rightarrow> config \<Rightarrow> world \<Rightarrow> tracker \<Rightarrow> run_outcome" where
  "run FinancialAdvice = ActionFinancialAdvice_run"
| "run GenerateImage = ActionGenerateImage_run"
| "run GetFAQ = ActionGetFAQ_run"
| "run SubmitSuggestion = ActionSubmitSuggestion_run"

section \<open>Reading the claims\<close>

text \<open>
  The definitions of this section are not code of the module: they say what the claims
  about it mean.

  A message has non-empty text when its text is a string and that string is not empty.
\<close>

definition nonempty_text :: "message \<Rightarrow> bool" where
  "nonempty_text m = (case msg_text m of PyStr s \<Rightarrow> s \<noteq> [] | _ \<Rightarrow> False)"


text \<open>Likewise \<^verbatim>\<open>artifacts[0].base64\<close> of a response of the image service.\<close>

definition response_image_b64 :: "pyval \<Rightarrow> pyval option" where
  "response_image_b64 j =
     (case j of
        PyDict items \<Rightarrow>
          (case map_of items (lit ''artifacts'') of
             Some (PyList (PyDict artifact # artifacts)) \<Rightarrow> map_of artifact (lit ''base64'')
           | _ \<Rightarrow> None)
      | _ \<Rightarrow> None)"



text \<open>
  The line a handler prints can be written: stdout can encode what the outside put into
  the text of the exception, which is the reason phrase of the response.
\<close>

definition log_printable :: "world \<Rightarrow> bool" where
  "log_printable w =
     (case http w of
        PostRaised e \<Rightarrow> print_ok (stdout_encodes w) (exn_remote_text e)
      | Response status reason body \<Rightarrow> print_ok (stdout_encodes w) reason)"

text \<open>
  The timeout a call passes. Only \<^verbatim>\<open>requests.post\<close> and \<^verbatim>\<open>smtplib.SMTP\<close> take
  one; the commands of a mail session run on the connection that
  \<^verbatim>\<open>smtplib.SMTP\<close> opened, so they are bounded when it is.
\<close>

fun call_timeout :: "ext_call \<Rightarrow> nat option" where
  "call_timeout (HttpPost q) = timeout q"
| "call_timeout (SmtpOpen host port t) = t"
| "call_timeout c = None"

fun has_timeout :: "ext_call \<Rightarrow> bool" where
  "has_timeout (HttpPost q) = (timeout q \<noteq> None)"
| "has_timeout (SmtpOpen host port t) = (t \<noteq> None)"
| "has_timeout c = True"

text \<open>
  The prompt as the specification describes it: the leading trigger token stripped, then
  the whitespace around the rest trimmed.
\<close>

definition spec_prompt :: "pystr \<Rightarrow> pystr" where
  "spec_prompt user_message = str_strip (drop (length (lit ''/imagine'')) user_message)"

text \<open>\<^verbatim>\<open>old in s\<close>: \<open>old\<close> occurs in \<open>s\<close>.\<close>

fun str_contains :: "pystr \<Rightarrow> pystr \<Rightarrow> bool" where
  "str_contains old [] = (old = [])"
| "str_contains old (c # cs) = (prefix old (c # cs) \<or> str_contains old cs)"

text \<open>
  The reader of an image payload. A data URI (RFC 2397) is \<^verbatim>\<open>data:\<close>, a header, a
  comma and the data; when the header ends in \<^verbatim>\<open>;base64\<close> the data are base64
  (RFC 4648): four characters of the alphabet give three bytes, and \<^verbatim>\<open>=\<close> pads
  the last group.
\<close>

definition b64_value :: "nat \<Rightarrow> nat option" where
  "b64_value c =
     (if 65 \<le> c \<and> c \<le> 90 then Some (c - 65)
      else if 97 \<le> c \<and> c \<le> 122 then Some (c - 71)
      else if 48 \<le> c \<and> c \<le> 57 then Some (c + 4)
      else if c = 43 then Some 62
      else if c = 47 then Some 63
      else None)"

fun b64_decode :: "pystr \<Rightarrow> nat list option" where
  "b64_decode [] = Some []"
| "b64_decode (a # b # c # d # rest) =
     (case (b64_value a, b64_value b) of
        (Some x, Some y) \<Rightarrow>
          if rest = [] \<and> c = 61 \<and> d = 61 then Some [x * 4 + y div 16]
          else (case b64_value c of
                  None \<Rightarrow> None
                | Some z \<Rightarrow>
                    if rest = [] \<and> d = 61
                    then Some [x * 4 + y div 16, (y mod 16) * 16 + z div 4]
                    else (case (b64_value d, b64_decode rest) of
                            (Some v, Some bytes) \<Rightarrow>
                              Some ([x * 4 + y div 16, (y mod 16) * 16 + z div 4,
                                     (z mod 4) * 64 + v] @ bytes)
                          | _ \<Rightarrow> None))
      | _ \<Rightarrow> None)"
| "b64_decode s = None"

definition data_uri_decode :: "pystr \<Rightarrow> (pystr \<times> nat list) option" where
  "data_uri_decode uri =
     (if prefix (lit ''data:'') uri then
        (let rest = drop 5 uri;
             hdr = takeWhile (\<lambda>c. c \<noteq> 44) rest;
             dat = drop (Suc (length hdr)) rest
         in if length hdr < length rest \<and> suffix (lit '';base64'') hdr
            then map_option (Pair (take (length hdr - 7) hdr)) (b64_decode dat)
            else None)
      else None)"

text \<open>What an invocation uttered (nothing when it raised) and which calls it made.\<close>

definition emitted :: "run_outcome \<Rightarrow> message list" where
  "emitted res = (case res of Inl x \<Rightarrow> [] | Inr r \<Rightarrow> messages r)"

definition made_calls :: "run_outcome \<Rightarrow> ext_call list" where
  "made_calls res = (case res of Inl x \<Rightarrow> snd x | Inr r \<Rightarrow> calls r)"

section \<open>Example inputs\<close>

definition example_repr :: "pyval \<Rightarrow> pystr" where
  "example_repr v = lit ''<repr>''"

definition example_config :: config where
  "example_config =
     \<lparr>GEMINI_API_KEY = Some (lit ''g-key''), IMAGE_API_KEY = Some (lit ''i-key''),
      EMAIL_ADDRESS = Some (lit ''bot@example.org''), EMAIL_PASSWORD = Some (lit ''pw'')\<rparr>"

text \<open>
  A stdout that encodes ASCII only, and one in UTF-8, which encodes every code point but
  the surrogates.
\<close>

definition ascii_stdout :: "nat \<Rightarrow> bool" where
  "ascii_stdout c = False"

definition utf8_stdout :: "nat \<Rightarrow> bool" where
  "utf8_stdout c = (c < 55296 \<or> (57343 < c \<and> c < 1114112))"

definition text_tracker :: "pyval \<Rightarrow> tracker" where
  "text_tracker v = \<lparr>latest_message = [(lit ''text'', v)]\<rparr>"

text \<open>A well-formed reply of the text service and of the image service.\<close>

definition gemini_reply :: "pyval \<Rightarrow> pyval" where
  "gemini_reply t =
     PyDict [(lit ''candidates'',
       PyList [PyDict [(lit ''content'',
         PyDict [(lit ''parts'', PyList [PyDict [(lit ''text'', t)]])])]])]"

definition stability_reply :: "pyval \<Rightarrow> pyval" where
  "stability_reply b =
     PyDict [(lit ''artifacts'', PyList [PyDict [(lit ''base64'', b)]])]"

section \<open>Properties\<close>

subsection \<open>Helper facts\<close>

lemma candidate_text_gemini_reply: "candidate_text (gemini_reply t) = Inr t"
  by (simp add: candidate_text_def gemini_reply_def bind_exn_def lit_def)

lemma artifact_base64_stability_reply: "artifact_base64 (stability_reply b) = Inr b"
  by (simp add: artifact_base64_def stability_reply_def bind_exn_def lit_def)

lemma dict_get_text_tracker:
  "dict_get (latest_message (text_tracker v)) (lit ''text'') d = v"
  by (simp add: dict_get_def text_tracker_def)

text \<open>When a subscript succeeds, and what the exception of a failed one prints.\<close>

lemma getitem_key_Inr:
  "getitem_key v k = Inr x \<longleftrightarrow> (\<exists>d. v = PyDict d \<and> map_of d k = Some x)"
  by (cases v) (auto split: option.splits)

lemma getitem_0_Inr_dict:
  "getitem_0 v = Inr (PyDict d) \<longleftrightarrow> (\<exists>xs. v = PyList (PyDict d # xs))"
  by (cases v rule: getitem_0.cases) auto

lemma getitem_key_local: "getitem_key v k = Inl e \<Longrightarrow> exn_remote_text e = []"
  by (cases v) (auto split: option.splits)

lemma getitem_0_local: "getitem_0 v = Inl e \<Longrightarrow> exn_remote_text e = []"
  by (cases v rule: getitem_0.cases) auto

lemma bind_exn_Inr: "bind_exn m f = Inr y \<longleftrightarrow> (\<exists>x. m = Inr x \<and> f x = Inr y)"
  by (cases m) (simp_all add: bind_exn_def)

lemma bind_exn_Inl: "bind_exn m f = Inl e \<longleftrightarrow> m = Inl e \<or> (\<exists>x. m = Inr x \<and> f x = Inl e)"
  by (cases m) (simp_all add: bind_exn_def)


lemma candidate_text_local: "candidate_text j = Inl e \<Longrightarrow> exn_remote_text e = []"
  unfolding candidate_text_def bind_exn_Inl
  by (auto dest: getitem_key_local getitem_0_local)

lemma artifact_base64_iff: "artifact_base64 j = Inr t \<longleftrightarrow> response_image_b64 j = Some t"
proof
  assume "artifact_base64 j = Inr t"
  then obtain a b where
    "getitem_key j (lit ''artifacts'') = Inr a" "getitem_0 a = Inr b"
    "getitem_key b (lit ''base64'') = Inr t"
    unfolding artifact_base64_def bind_exn_Inr by blast
  then show "response_image_b64 j = Some t"
    by (auto simp: getitem_key_Inr getitem_0_Inr_dict response_image_b64_def)
next
  assume "response_image_b64 j = Some t"
  then show "artifact_base64 j = Inr t"
    by (auto simp: response_image_b64_def artifact_base64_def bind_exn_def
        split: pyval.splits option.splits list.splits)
qed


lemma print_ok_Nil: "print_ok enc []"
  by (simp add: print_ok_def)

text \<open>The exception of the financial-advice action's block, and whether it prints.\<close>

lemma advice_try_printable:
  assumes "log_printable w" and "advice_try (http w) = Inl e"
  shows "print_ok (stdout_encodes w) (exn_remote_text e)"
  using assms
  by (auto simp: log_printable_def advice_try_def print_ok_Nil
      split: http_result.splits if_splits option.splits dest: candidate_text_local)


text \<open>A leading occurrence of a non-empty \<open>old\<close> is replaced and the scan goes on behind it.\<close>

lemma str_replace_leading:
  assumes "old \<noteq> []"
  shows "str_replace old new (old @ rest) = new @ str_replace old new rest"
proof -
  from assms obtain a as where old: "old = a # as" by (cases old) auto
  have "str_replace old new (a # (as @ rest)) =
          new @ str_replace old new (drop (length old) (a # (as @ rest)))"
    using assms by (simp add: old)
  then show ?thesis by (simp add: old)
qed

lemma str_contains_Nil: "str_contains [] s"
  by (cases s) auto

lemma str_replace_absent:
  "\<not> str_contains old s \<Longrightarrow> str_replace old new s = s"
proof (induction s)
  case Nil
  then show ?case by auto
next
  case (Cons c cs)
  then have "old \<noteq> []" using str_contains_Nil by blast
  with Cons show ?case by auto
qed

lemma trigger_not_in_spaces:
  "list_all py_isspace ws \<Longrightarrow> \<not> str_contains (lit ''/imagine'') ws"
proof (induction ws)
  case Nil
  then show ?case by (simp add: lit_def)
next
  case (Cons c cs)
  have "\<not> py_isspace 47" by (simp add: py_isspace_def)
  with Cons show ?case by (auto simp: lit_def)
qed

lemma str_strip_spaces:
  assumes "list_all py_isspace ws"
  shows "str_strip ws = []"
proof -
  have d: "dropWhile py_isspace ws = []"
    using assms by (simp add: list_all_iff)
  show ?thesis by (simp only: str_strip_def d rev.simps dropWhile.simps)
qed

text \<open>The trigger token followed by whitespace only leaves an empty prompt.\<close>

lemma image_prompt_trigger_spaces:
  "list_all py_isspace ws \<Longrightarrow> image_prompt (lit ''/imagine'' @ ws) = []"
proof -
  assume ws: "list_all py_isspace ws"
  have "lit ''/imagine'' \<noteq> []" by (simp add: lit_def)
  then have "str_replace (lit ''/imagine'') [] (lit ''/imagine'' @ ws) =
             str_replace (lit ''/imagine'') [] ws"
    using str_replace_leading [of "lit ''/imagine''" "[]" ws] by simp
  also have "\<dots> = ws"
    using ws by (simp add: str_replace_absent trigger_not_in_spaces)
  finally show ?thesis using ws by (simp add: image_prompt_def str_strip_spaces)
qed

text \<open>
  A string that strips to nothing is whitespace only, so a message that is empty once its
  leading trigger token is stripped and the rest trimmed has an empty prompt.
\<close>

lemma str_strip_Nil_spaces:
  assumes "str_strip ws = []"
  shows "list_all py_isspace ws"
proof -
  from assms have a: "\<forall>x\<in>set (dropWhile py_isspace ws). py_isspace x"
    by (simp add: str_strip_def)
  have "dropWhile py_isspace ws = []"
  proof (rule ccontr)
    assume ne: "dropWhile py_isspace ws \<noteq> []"
    then have "\<not> py_isspace (hd (dropWhile py_isspace ws))" by (rule hd_dropWhile)
    moreover from ne have "hd (dropWhile py_isspace ws) \<in> set (dropWhile py_isspace ws)"
      by simp
    ultimately show False using a by blast
  qed
  then show ?thesis by (simp add: list_all_iff)
qed

lemma spec_prompt_empty_image_prompt:
  assumes "prefix (lit ''/imagine'') s" and "spec_prompt s = []"
  shows "image_prompt s = []"
proof -
  from assms(1) obtain rest where s: "s = lit ''/imagine'' @ rest"
    by (auto simp: prefix_def)
  with assms(2) have "str_strip rest = []" by (simp add: spec_prompt_def)
  then have "list_all py_isspace rest" by (rule str_strip_Nil_spaces)
  then show ?thesis unfolding s by (rule image_prompt_trigger_spaces)
qed

text \<open>Every fixed text an action utters is non-empty.\<close>

lemma fixed_texts_nonempty:
  "advice_fallback \<noteq> []" "image_usage \<noteq> []" "image_caption \<noteq> []" "image_fallback \<noteq> []"
  "faq_message \<noteq> []" "suggestion_sent \<noteq> []" "suggestion_noted \<noteq> []"
  by (simp_all add: advice_fallback_def image_usage_def image_caption_def image_fallback_def
        faq_message_def suggestion_sent_def suggestion_noted_def lit_def)

text \<open>
  The financial-advice action makes its one request whatever happens, and returns with one
  message when the line of its handler can be printed.
\<close>

lemma advice_made_calls:
  "made_calls (ActionFinancialAdvice_run py_repr cfg w tr) =
     [HttpPost (advice_request py_repr cfg
        (dict_get (latest_message tr) (lit ''text'') (PyStr [])))]"
  by (simp add: ActionFinancialAdvice_run_def made_calls_def Let_def split: sum.splits)

lemma advice_run_shape:
  assumes "log_printable w"
  shows "\<exists>m. ActionFinancialAdvice_run py_repr cfg w tr =
           Inr \<lparr>messages = [m], events = [],
                calls = [HttpPost (advice_request py_repr cfg
                           (dict_get (latest_message tr) (lit ''text'') (PyStr [])))]\<rparr> \<and>
         (m = \<lparr>msg_text = PyStr advice_fallback, image = None\<rparr> \<or>
          advice_try (http w) = Inr (msg_text m))"
proof (cases "advice_try (http w)")
  case (Inl e)
  with assms have "print_ok (stdout_encodes w) (exn_remote_text e)"
    by (simp add: advice_try_printable)
  with Inl show ?thesis by (simp add: ActionFinancialAdvice_run_def Let_def)
next
  case (Inr t)
  then show ?thesis by (simp add: ActionFinancialAdvice_run_def Let_def)
qed


lemma image_try_calls:
  "snd (image_try py_repr cfg w p) = [] \<or>
   (\<exists>k. snd (image_try py_repr cfg w p) = [HttpPost (image_request k p)])"
  by (auto simp: image_try_def split: option.splits)


lemma image_run_with_key:
  assumes "dict_get (latest_message tr) (lit ''text'') (PyStr []) = PyStr s"
      and "image_prompt s \<noteq> []" and "IMAGE_API_KEY cfg = Some k" and "k \<noteq> []"
  shows "made_calls (ActionGenerateImage_run py_repr cfg w tr) =
           [HttpPost (image_request k (image_prompt s))]"
  using assms
  by (auto simp: ActionGenerateImage_run_def image_try_def made_calls_def Let_def
      split: sum.splits prod.splits)

lemma image_made_calls:
  "made_calls (ActionGenerateImage_run py_repr cfg w tr) = [] \<or>
   (\<exists>k p. made_calls (ActionGenerateImage_run py_repr cfg w tr) = [HttpPost (image_request k p)])"
proof (cases "dict_get (latest_message tr) (lit ''text'') (PyStr [])")
  case (PyStr s)
  obtain r cs where t: "image_try py_repr cfg w (image_prompt s) = (r, cs)"
    by (cases "image_try py_repr cfg w (image_prompt s)")
  from image_try_calls [of py_repr cfg w "image_prompt s"] t
  have "cs = [] \<or> (\<exists>k. cs = [HttpPost (image_request k (image_prompt s))])" by simp
  with PyStr t show ?thesis
    by (cases r) (auto simp: ActionGenerateImage_run_def made_calls_def Let_def)
qed (simp_all add: ActionGenerateImage_run_def made_calls_def)


text \<open>The suggestion action: its calls pass no timeout, and it always returns with one message.\<close>

lemma suggestion_try_calls:
  "list_all (\<lambda>c. call_timeout c = None) (snd (suggestion_try cfg raises msg))"
  by (simp add: suggestion_try_def Let_def)

lemma suggestion_run_shape:
  "\<exists>m cs. ActionSubmitSuggestion_run py_repr cfg w tr =
           Inr \<lparr>messages = [m], events = [], calls = cs\<rparr> \<and> nonempty_text m \<and>
           list_all (\<lambda>c. call_timeout c = None) cs"
proof -
  obtain ok cs where t: "suggestion_try cfg (smtp_raises w)
      (suggestion_envelope py_repr cfg (dict_get (latest_message tr) (lit ''text'') (PyStr []))) =
      (ok, cs)"
    by (cases "suggestion_try cfg (smtp_raises w)
      (suggestion_envelope py_repr cfg (dict_get (latest_message tr) (lit ''text'') (PyStr [])))")
  from suggestion_try_calls [of cfg "smtp_raises w"
      "suggestion_envelope py_repr cfg (dict_get (latest_message tr) (lit ''text'') (PyStr []))"] t
  have "list_all (\<lambda>c. call_timeout c = None) cs" by simp
  with t show ?thesis
    by (cases ok)
       (simp_all add: ActionSubmitSuggestion_run_def Let_def nonempty_text_def
          fixed_texts_nonempty print_ok_Nil)
qed

text \<open>No call of any action passes a timeout.\<close>

lemma run_calls_no_timeout:
  "list_all (\<lambda>c. call_timeout c = None) (made_calls (run a py_repr cfg w tr))"
proof (cases a)
  case FinancialAdvice
  then show ?thesis
    by (simp add: advice_made_calls advice_request_def Let_def)
next
  case GenerateImage
  then show ?thesis
    using image_made_calls [of py_repr cfg w tr] by (auto simp: image_request_def)
next
  case GetFAQ
  then show ?thesis by (simp add: ActionGetFAQ_run_def made_calls_def)
next
  case SubmitSuggestion
  then show ?thesis using suggestion_run_shape [of py_repr cfg w tr]
    by (auto simp: made_calls_def)
qed

text \<open>The handlers do not look at the exception: a timeout is a failure like any other.\<close>

lemma run_timeout_as_failure:
  "run a py_repr cfg (w\<lparr>http := PostRaised Timeout\<rparr>) tr =
   run a py_repr cfg (w\<lparr>http := PostRaised ConnectionError\<rparr>) tr"
  by (cases a)
     (auto simp: ActionFinancialAdvice_run_def advice_try_def ActionGenerateImage_run_def
        image_try_def ActionGetFAQ_run_def ActionSubmitSuggestion_run_def Let_def print_ok_Nil
      split: pyval.splits option.splits prod.splits bool.splits)

lemma suggestion_any_raise_noted:
  "emitted (ActionSubmitSuggestion_run py_repr cfg (w\<lparr>smtp_raises := Some st\<rparr>) tr) =
     [\<lparr>msg_text = PyStr suggestion_noted, image = None\<rparr>]"
  by (cases st)
     (simp_all add: ActionSubmitSuggestion_run_def suggestion_try_def Let_def emitted_def
        print_ok_Nil)

text \<open>Whenever an action returns, the list of events it returns is empty.\<close>

lemma run_events_empty:
  assumes "run a py_repr cfg w tr = Inr r"
  shows "events r = []"
proof (cases a)
  case FinancialAdvice
  with assms show ?thesis
    by (auto simp: ActionFinancialAdvice_run_def Let_def split: sum.splits if_splits)
next
  case GenerateImage
  with assms show ?thesis
    by (auto simp: ActionGenerateImage_run_def Let_def
        split: pyval.splits sum.splits if_splits prod.splits)
next
  case GetFAQ
  with assms show ?thesis by (auto simp: ActionGetFAQ_run_def)
next
  case SubmitSuggestion
  with assms show ?thesis
    by (auto simp: ActionSubmitSuggestion_run_def Let_def split: prod.splits bool.splits if_splits)
qed

text \<open>The reader takes a PNG data URI apart into its media type and the decoded data.\<close>

lemma data_uri_decode_png:
  "data_uri_decode (lit ''data:image/png;base64,'' @ b64) =
     map_option (Pair (lit ''image/png'')) (b64_decode b64)"
  by (simp add: data_uri_decode_def lit_def suffix_def)

subsection \<open>The suggestion action and its mail session\<close>

text \<open>When no statement raises, the session is opened once and ended once with \<^verbatim>\<open>quit\<close>.\<close>

lemma suggestion_success_quits_once:
  "made_calls (ActionSubmitSuggestion_run py_repr cfg \<lparr>http = h, smtp_raises = None, stdout_encodes = enc\<rparr> tr) =
     [SmtpOpen (lit ''smtp.gmail.com'') 587 None, SmtpStarttls,
      SmtpLogin (EMAIL_ADDRESS cfg) (EMAIL_PASSWORD cfg),
      SmtpSendmail (EMAIL_ADDRESS cfg) TO_EMAIL
        (suggestion_envelope py_repr cfg (dict_get (latest_message tr) (lit ''text'') (PyStr []))),
      SmtpQuit]"
  by (simp add: ActionSubmitSuggestion_run_def suggestion_try_def Let_def made_calls_def)

text \<open>
  C2. The claim: whenever the suggestion action opens a connection to the mail
  transport, it closes it exactly once before it returns, also when authentication or
  submission fails. The code does not: when \<^verbatim>\<open>server.login\<close> raises, the connection
  has been opened and \<^verbatim>\<open>server.quit()\<close> is never called. The action has made three
  calls, none of them \<^verbatim>\<open>quit\<close>, and utters the softer fallback.
\<close>

theorem suggestion_login_failure_no_quit:
  "ActionSubmitSuggestion_run py_repr cfg \<lparr>http = h, smtp_raises = Some Login, stdout_encodes = enc\<rparr> tr =
     Inr \<lparr>messages = [\<lparr>msg_text = PyStr suggestion_noted, image = None\<rparr>], events = [],
          calls = [SmtpOpen (lit ''smtp.gmail.com'') 587 None, SmtpStarttls,
                   SmtpLogin (EMAIL_ADDRESS cfg) (EMAIL_PASSWORD cfg)]\<rparr>"
  by (simp add: ActionSubmitSuggestion_run_def suggestion_try_def Let_def print_ok_Nil)

subsection \<open>The financial-advice action\<close>




text \<open>
  When the line of the handler can be printed, the empty message is handled as the
  specification says: the action returns, having made the one request whose text is the
  fixed instruction with nothing after it, and having uttered exactly one message, the
  fallback or the text the service gave.
\<close>

lemma advice_empty_message_logged:
  assumes "dict_get (latest_message tr) (lit ''text'') (PyStr []) = PyStr []"
      and "log_printable w"
  shows "\<exists>m. ActionFinancialAdvice_run py_repr cfg w tr =
             Inr \<lparr>messages = [m], events = [],
                  calls = [HttpPost (advice_request py_repr cfg (PyStr []))]\<rparr> \<and>
           (m = \<lparr>msg_text = PyStr advice_fallback, image = None\<rparr> \<or>
            advice_try (http w) = Inr (msg_text m)) \<and>
           json_body (advice_request py_repr cfg (PyStr [])) =
             PyDict [(lit ''contents'',
               PyList [PyDict [
                 (lit ''role'', PyStr (lit ''user'')),
                 (lit ''parts'', PyList [PyDict [(lit ''text'',
                    PyStr (lit ''As a financial advisor, please provide helpful advice for: ''))]])]])]"
  using advice_run_shape [OF assms(2), of py_repr cfg tr] assms(1)
  by (simp add: advice_request_def Let_def)

text \<open>
  C9. The claim: on a snapshot whose latest user message is the empty string the
  financial-advice action never raises and resolves to exactly one message. The code
  does not: its handler prints the exception before it utters the fallback. When the
  service answers 503 with a reason phrase that stdout cannot encode (here a phrase with
  a u-umlaut on a stdout that encodes ASCII only), the \<^verbatim>\<open>print\<close> raises inside the
  handler, the exception leaves \<^verbatim>\<open>run\<close>, and no message is uttered.
\<close>

theorem advice_empty_message_print_raises:
  "ActionFinancialAdvice_run example_repr example_config
       \<lparr>http = Response 503 (lit ''Dienst nicht verf'' @ [252] @ lit ''gbar'') None,
        smtp_raises = None, stdout_encodes = ascii_stdout\<rparr>
       (text_tracker (PyStr [])) =
     Inl (UnicodeEncodeError,
          [HttpPost (advice_request example_repr example_config (PyStr []))])"
  by (simp add: ActionFinancialAdvice_run_def advice_try_def raise_for_status_def
        dict_get_def text_tracker_def print_ok_def ascii_stdout_def lit_def)

subsection \<open>The image action\<close>

text \<open>
  C6. When the text is a string whose content after removing the trigger token is
  empty, the image action makes no external call and utters the usage instruction.
  "Empty after removing the token" is read both ways: the prompt the code computes
  (every occurrence removed, whitespace trimmed) is empty, or the message begins with
  the token and is empty once that token is stripped and the rest trimmed, as
  \<^verbatim>\<open>/imagine \<close> followed by whitespace only is.
\<close>

theorem image_empty_prompt_usage:
  assumes "dict_get (latest_message tr) (lit ''text'') (PyStr []) = PyStr s"
      and "image_prompt s = [] \<or> (prefix (lit ''/imagine'') s \<and> spec_prompt s = [])"
  shows "ActionGenerateImage_run py_repr cfg w tr =
           Inr \<lparr>messages = [\<lparr>msg_text = PyStr image_usage, image = None\<rparr>], events = [],
                calls = []\<rparr>"
proof -
  from assms(2) have "image_prompt s = []"
    using spec_prompt_empty_image_prompt by blast
  with assms(1) show ?thesis by (simp add: ActionGenerateImage_run_def)
qed

theorem image_empty_prompt_usage_witness:
  "prefix (lit ''/imagine'') (lit ''/imagine '') \<and> spec_prompt (lit ''/imagine '') = [] \<and>
   ActionGenerateImage_run example_repr example_config
       \<lparr>http = Response 200 (lit ''OK'') (Some (stability_reply (PyStr (lit ''AAAA'')))), smtp_raises = None, stdout_encodes = utf8_stdout\<rparr>
       (text_tracker (PyStr (lit ''/imagine ''))) =
     Inr \<lparr>messages = [\<lparr>msg_text = PyStr image_usage, image = None\<rparr>], events = [],
          calls = []\<rparr>"
  using image_empty_prompt_usage [of "text_tracker (PyStr (lit ''/imagine ''))" "lit ''/imagine ''"
      example_repr example_config
      "\<lparr>http = Response 200 (lit ''OK'') (Some (stability_reply (PyStr (lit ''AAAA'')))), smtp_raises = None, stdout_encodes = utf8_stdout\<rparr>"]
  by (simp add: dict_get_def text_tracker_def lit_def spec_prompt_def str_strip_def py_isspace_def)

text \<open>
  C5, as amended. For a message that begins with the trigger token, with an API key set
  and a prompt that is not empty, the prompt the image action sends is the rest of the
  message with every further occurrence of the trigger token removed and the
  whitespace around the result trimmed. When the rest holds no further occurrence,
  that is the message with the leading token stripped and the whitespace trimmed.
\<close>

theorem image_prompt_sent:
  assumes "dict_get (latest_message tr) (lit ''text'') (PyStr []) = PyStr (lit ''/imagine'' @ rest)"
      and "IMAGE_API_KEY cfg = Some k" and "k \<noteq> []"
      and "str_strip (str_replace (lit ''/imagine'') [] rest) \<noteq> []"
  shows "made_calls (ActionGenerateImage_run py_repr cfg w tr) =
           [HttpPost (image_request k (str_strip (str_replace (lit ''/imagine'') [] rest)))] \<and>
         (\<not> str_contains (lit ''/imagine'') rest \<longrightarrow>
            str_strip (str_replace (lit ''/imagine'') [] rest) =
              spec_prompt (lit ''/imagine'' @ rest))"
proof -
  have "lit ''/imagine'' \<noteq> []" by (simp add: lit_def)
  then have p: "image_prompt (lit ''/imagine'' @ rest) =
                  str_strip (str_replace (lit ''/imagine'') [] rest)"
    using str_replace_leading [of "lit ''/imagine''" "[]" rest] by (simp add: image_prompt_def)
  have "made_calls (ActionGenerateImage_run py_repr cfg w tr) =
          [HttpPost (image_request k (image_prompt (lit ''/imagine'' @ rest)))]"
    using assms p by (intro image_run_with_key) simp_all
  moreover have "\<not> str_contains (lit ''/imagine'') rest \<Longrightarrow>
      str_strip (str_replace (lit ''/imagine'') [] rest) = spec_prompt (lit ''/imagine'' @ rest)"
    by (simp add: str_replace_absent spec_prompt_def)
  ultimately show ?thesis using p by simp
qed

theorem image_prompt_sent_witness:
  "made_calls (ActionGenerateImage_run example_repr example_config
       \<lparr>http = PostRaised ConnectionError, smtp_raises = None, stdout_encodes = utf8_stdout\<rparr>
       (text_tracker (PyStr (lit ''/imagine a red bicycle'')))) =
     [HttpPost (image_request (lit ''i-key'') (lit ''a red bicycle''))] \<and>
   spec_prompt (lit ''/imagine a red bicycle'') = lit ''a red bicycle''"
  using image_prompt_sent [of "text_tracker (PyStr (lit ''/imagine a red bicycle''))"
      "lit '' a red bicycle''" example_config "lit ''i-key''" example_repr
      "\<lparr>http = PostRaised ConnectionError, smtp_raises = None, stdout_encodes = utf8_stdout\<rparr>"]
  by (simp add: dict_get_def text_tracker_def example_config_def lit_def str_strip_def
        py_isspace_def spec_prompt_def)

text \<open>
  The claim as stated strips the leading token only. On
  \<^verbatim>\<open>/imagine a /imagine b\<close> that gives \<^verbatim>\<open>a /imagine b\<close>; the action sends
  \<^verbatim>\<open>a  b\<close>, because \<^verbatim>\<open>replace\<close> removes the second occurrence too.
\<close>

theorem image_prompt_inner_trigger_counterexample:
  "prefix (lit ''/imagine'') (lit ''/imagine a /imagine b'') \<and>
   made_calls (ActionGenerateImage_run example_repr example_config
       \<lparr>http = PostRaised ConnectionError, smtp_raises = None, stdout_encodes = utf8_stdout\<rparr>
       (text_tracker (PyStr (lit ''/imagine a /imagine b'')))) =
     [HttpPost (image_request (lit ''i-key'') (lit ''a  b''))] \<and>
   spec_prompt (lit ''/imagine a /imagine b'') = lit ''a /imagine b'' \<and>
   lit ''a  b'' \<noteq> lit ''a /imagine b''"
  by (simp add: made_calls_def ActionGenerateImage_run_def image_try_def image_prompt_def
        dict_get_def text_tracker_def example_config_def lit_def str_strip_def py_isspace_def
        spec_prompt_def print_ok_def)

text \<open>
  C7, as amended. When the text is a string and the image API key is missing
  (\<^verbatim>\<open>None\<close> or the empty string), the image action makes no external call and
  utters one message: the fixed image fallback when the prompt is not empty, the usage
  instruction when it is empty (the check of the prompt comes before the check of the
  key).
\<close>

theorem image_missing_key_fallback:
  assumes "dict_get (latest_message tr) (lit ''text'') (PyStr []) = PyStr s"
      and "IMAGE_API_KEY cfg = None \<or> IMAGE_API_KEY cfg = Some []"
  shows "ActionGenerateImage_run py_repr cfg w tr =
           Inr \<lparr>messages =
                  [\<lparr>msg_text = PyStr (if image_prompt s = [] then image_usage
                                       else image_fallback),
                    image = None\<rparr>],
                events = [], calls = []\<rparr>"
  using assms by (auto simp: ActionGenerateImage_run_def image_try_def print_ok_Nil)

theorem image_missing_key_fallback_witness:
  "ActionGenerateImage_run example_repr (example_config\<lparr>IMAGE_API_KEY := None\<rparr>)
       \<lparr>http = Response 200 (lit ''OK'') (Some (stability_reply (PyStr (lit ''AAAA'')))), smtp_raises = None, stdout_encodes = utf8_stdout\<rparr>
       (text_tracker (PyStr (lit ''/imagine a red bicycle''))) =
     Inr \<lparr>messages = [\<lparr>msg_text = PyStr image_fallback, image = None\<rparr>], events = [],
          calls = []\<rparr>"
  using image_missing_key_fallback [of "text_tracker (PyStr (lit ''/imagine a red bicycle''))"
      "lit ''/imagine a red bicycle''" "example_config\<lparr>IMAGE_API_KEY := None\<rparr>" example_repr
      "\<lparr>http = Response 200 (lit ''OK'') (Some (stability_reply (PyStr (lit ''AAAA'')))), smtp_raises = None, stdout_encodes = utf8_stdout\<rparr>"]
  by (simp add: dict_get_def text_tracker_def image_prompt_def lit_def str_strip_def
        py_isspace_def)

text \<open>
  The claim as stated promises the fallback on every input. With the key missing and the
  text \<^verbatim>\<open>/imagine \<close> the prompt is empty and the action utters the usage
  instruction, not the fallback.
\<close>

theorem image_missing_key_empty_prompt_counterexample:
  "IMAGE_API_KEY (example_config\<lparr>IMAGE_API_KEY := None\<rparr>) = None \<and>
   emitted (ActionGenerateImage_run example_repr (example_config\<lparr>IMAGE_API_KEY := None\<rparr>)
       \<lparr>http = PostRaised ConnectionError, smtp_raises = None, stdout_encodes = utf8_stdout\<rparr>
       (text_tracker (PyStr (lit ''/imagine '')))) =
     [\<lparr>msg_text = PyStr image_usage, image = None\<rparr>] \<and>
   PyStr image_usage \<noteq> PyStr image_fallback"
  by (simp add: emitted_def ActionGenerateImage_run_def image_prompt_def dict_get_def
        text_tracker_def lit_def str_strip_def py_isspace_def image_usage_def image_fallback_def)

text \<open>
  C8. When the image action has made its request (a string text with a non-empty
  prompt, a key) and the response is a success (a status that
  \<^verbatim>\<open>raise_for_status\<close> lets pass, a JSON body) whose
  \<^verbatim>\<open>artifacts[0].base64\<close> is the string \<open>b64\<close>, the action utters one message with
  the caption and an image payload, and a reader of that payload gets the media type
  \<^verbatim>\<open>image/png\<close> and exactly the bytes that \<open>b64\<close> decodes to.
\<close>

theorem image_payload_roundtrip:
  assumes "dict_get (latest_message tr) (lit ''text'') (PyStr []) = PyStr s"
      and "image_prompt s \<noteq> []" and "IMAGE_API_KEY cfg = Some k" and "k \<noteq> []"
      and "http w = Response status reason (Some data)" and "\<not> raise_for_status status"
      and "response_image_b64 data = Some (PyStr b64)"
  shows "\<exists>uri. emitted (ActionGenerateImage_run py_repr cfg w tr) =
                 [\<lparr>msg_text = PyStr image_caption, image = Some uri\<rparr>] \<and>
               data_uri_decode uri = map_option (Pair (lit ''image/png'')) (b64_decode b64)"
proof -
  from assms(7) have "artifact_base64 data = Inr (PyStr b64)"
    by (simp add: artifact_base64_iff)
  with assms have "emitted (ActionGenerateImage_run py_repr cfg w tr) =
          [\<lparr>msg_text = PyStr image_caption,
            image = Some (lit ''data:image/png;base64,'' @ b64)\<rparr>]"
    by (simp add: ActionGenerateImage_run_def image_try_def emitted_def bind_exn_def)
  then show ?thesis using data_uri_decode_png by blast
qed

theorem image_payload_roundtrip_witness:
  "emitted (ActionGenerateImage_run example_repr example_config
       \<lparr>http = Response 200 (lit ''OK'') (Some (stability_reply (PyStr (lit ''AAAA'')))),
        smtp_raises = None, stdout_encodes = utf8_stdout\<rparr>
       (text_tracker (PyStr (lit ''/imagine a red bicycle'')))) =
     [\<lparr>msg_text = PyStr image_caption, image = Some (lit ''data:image/png;base64,AAAA'')\<rparr>] \<and>
   data_uri_decode (lit ''data:image/png;base64,AAAA'') = Some (lit ''image/png'', [0, 0, 0]) \<and>
   b64_decode (lit ''AAAA'') = Some [0, 0, 0]"
  using image_payload_roundtrip [of "text_tracker (PyStr (lit ''/imagine a red bicycle''))"
      "lit ''/imagine a red bicycle''" example_config "lit ''i-key''"
      "\<lparr>http = Response 200 (lit ''OK'') (Some (stability_reply (PyStr (lit ''AAAA'')))),
        smtp_raises = None, stdout_encodes = utf8_stdout\<rparr>"
      200 "lit ''OK''" "stability_reply (PyStr (lit ''AAAA''))" "lit ''AAAA''" example_repr]
  by (simp add: dict_get_def text_tracker_def image_prompt_def lit_def str_strip_def
        py_isspace_def example_config_def raise_for_status_def artifact_base64_def
        stability_reply_def response_image_b64_def bind_exn_def b64_value_def
        ActionGenerateImage_run_def image_try_def emitted_def data_uri_decode_def suffix_def)

subsection \<open>All four actions\<close>

text \<open>
  C10. The claim: on every input and every outcome, every action's \<^verbatim>\<open>run\<close> returns
  the empty list of events. Whenever an action returns, the list is empty
  (\<open>run_events_empty\<close>); but the image action does not return on a snapshot whose text
  is \<^verbatim>\<open>None\<close>: \<^verbatim>\<open>user_message.replace\<close> stands before the \<^verbatim>\<open>try\<close> block,
  raises \<^verbatim>\<open>AttributeError\<close>, and the exception leaves \<^verbatim>\<open>run\<close> with no list
  returned, no message uttered and no call made.
\<close>

theorem image_none_text_raises:
  "run GenerateImage example_repr example_config
     \<lparr>http = PostRaised ConnectionError, smtp_raises = None, stdout_encodes = utf8_stdout\<rparr>
     (text_tracker PyNone) =
   Inl (AttributeError, [])"
  by (simp add: ActionGenerateImage_run_def dict_get_text_tracker)




text \<open>
  C4, as amended. No call an action makes passes a timeout: the two HTTP requests and
  the mail connection run with the libraries' default, which is no time limit. A
  timeout the transport raises is an exception like any other: the action does what it
  does when the connection fails, the financial-advice action utters its fallback, and
  a mail session in which any statement raises ends in the softer fallback.
\<close>

theorem calls_without_timeout:
  "list_all (\<lambda>c. call_timeout c = None) (made_calls (run a py_repr cfg w tr)) \<and>
   run a py_repr cfg (w\<lparr>http := PostRaised Timeout\<rparr>) tr =
     run a py_repr cfg (w\<lparr>http := PostRaised ConnectionError\<rparr>) tr \<and>
   emitted (run FinancialAdvice py_repr cfg (w\<lparr>http := PostRaised Timeout\<rparr>) tr) =
     [\<lparr>msg_text = PyStr advice_fallback, image = None\<rparr>] \<and>
   emitted (run SubmitSuggestion py_repr cfg (w\<lparr>smtp_raises := Some st\<rparr>) tr) =
     [\<lparr>msg_text = PyStr suggestion_noted, image = None\<rparr>]"
  using run_calls_no_timeout [of a py_repr cfg w tr] run_timeout_as_failure [of a py_repr cfg w tr]
    suggestion_any_raise_noted [of py_repr cfg st w tr]
  by (simp add: emitted_def ActionFinancialAdvice_run_def advice_try_def print_ok_Nil)

theorem calls_without_timeout_witness:
  "made_calls (run GenerateImage example_repr example_config
       \<lparr>http = PostRaised Timeout, smtp_raises = None, stdout_encodes = utf8_stdout\<rparr>
       (text_tracker (PyStr (lit ''/imagine a red bicycle'')))) =
     [HttpPost (image_request (lit ''i-key'') (lit ''a red bicycle''))] \<and>
   timeout (image_request (lit ''i-key'') (lit ''a red bicycle'')) = None \<and>
   emitted (run GenerateImage example_repr example_config
       \<lparr>http = PostRaised Timeout, smtp_raises = None, stdout_encodes = utf8_stdout\<rparr>
       (text_tracker (PyStr (lit ''/imagine a red bicycle'')))) =
     [\<lparr>msg_text = PyStr image_fallback, image = None\<rparr>]"
  using calls_without_timeout [of GenerateImage example_repr example_config
      "\<lparr>http = PostRaised Timeout, smtp_raises = None, stdout_encodes = utf8_stdout\<rparr>"
      "text_tracker (PyStr (lit ''/imagine a red bicycle''))" Login]
  by (simp add: made_calls_def emitted_def ActionGenerateImage_run_def image_try_def
        image_prompt_def dict_get_def text_tracker_def example_config_def lit_def str_strip_def
        py_isspace_def image_request_def print_ok_def)

text \<open>
  The claim as stated bounds every call by a timeout. The one request of the
  financial-advice action passes none.
\<close>

theorem advice_request_unbounded_counterexample:
  "\<not> list_all has_timeout
       (made_calls (run FinancialAdvice example_repr example_config
          \<lparr>http = Response 200 (lit ''OK'') (Some (gemini_reply (PyStr (lit ''ok'')))), smtp_raises = None, stdout_encodes = utf8_stdout\<rparr>
          (text_tracker (PyStr (lit ''hi'')))))"
  by (simp add: made_calls_def ActionFinancialAdvice_run_def advice_try_def raise_for_status_def
        candidate_text_gemini_reply advice_request_def Let_def)

end
